theory Spec2Isabelle
  imports Main
begin

section \<open>cloudworker-router: the data model of Router.ts\<close>

text \<open>
  The router of \<^verbatim>\<open>src/Router.ts\<close> keeps one mutable field, the array \<^verbatim>\<open>routes\<close>.
  Registration appends to it, \<^verbatim>\<open>matches\<close> is a generator over it and \<^verbatim>\<open>handle\<close> drives
  that generator, calling the handlers of the routes it yields.

  Three things the file uses live outside it and are treated as follows.
  \<^item> \<^verbatim>\<open>pathToRegexp\<close> (package path-to-regexp) is a parameter \<open>pc\<close> of every registration
    function: it either raises or returns a regular expression and the key list it
    filled in. A compiled regular expression is the function its \<^verbatim>\<open>exec\<close> computes
    (the expressions the compiler builds carry no global or sticky flag, so \<^verbatim>\<open>exec\<close>
    is stateless).
  \<^item> \<^verbatim>\<open>Request\<close>, \<^verbatim>\<open>URL\<close> and \<^verbatim>\<open>Response\<close> are the platform's. A request carries its
    URL already parsed; a response is its status, status text, headers and body, and
    the constructor of responses makes the checks of the Fetch standard.
  \<^item> Handlers and callbacks are user code. A handler is a function of the context that
    either throws or returns, and hands the (mutable) context back; a callback is a
    function of the response and the error that either throws or returns a response.
    Both are total functions here: a promise that never settles is outside the model.

  The method of a request has the type \<^verbatim>\<open>Method\<close>, as the cast in \<^verbatim>\<open>handle\<close> takes it to
  have. The table is not changed while a request is handled, so the candidates of a
  request do not depend on what the handlers do.

  Names: the fields that several objects share carry a prefix (\<open>req_\<close> for the request,
  \<open>res_\<close> for the headers of a response, \<open>ctx_\<close> for the context); the field \<^verbatim>\<open>method\<close> of a
  route is \<open>route_method\<close>, the optional field \<^verbatim>\<open>matches\<close> of a \<^verbatim>\<open>RouteMatch\<close> is
  \<open>matches_opt\<close>, the option \<^verbatim>\<open>end\<close> is \<open>end'\<close>, the wildcard \<^verbatim>\<open>'ALL'\<close> is \<open>ALL'\<close> and the
  shorthand \<^verbatim>\<open>options\<close> is \<open>options'\<close>.
\<close>

datatype error = Error string | TypeError string | RangeError string

datatype http_method = GET | POST | PUT | PATCH | DELETE | HEAD | OPTIONS

text \<open>The type \<^verbatim>\<open>Method | MethodWildcard\<close> of the method of a route.\<close>

datatype method_or_wildcard = Method http_method | ALL'

fun method_name :: "method_or_wildcard \<Rightarrow> string" where
  "method_name (Method GET) = ''GET''"
| "method_name (Method POST) = ''POST''"
| "method_name (Method PUT) = ''PUT''"
| "method_name (Method PATCH) = ''PATCH''"
| "method_name (Method DELETE) = ''DELETE''"
| "method_name (Method HEAD) = ''HEAD''"
| "method_name (Method OPTIONS) = ''OPTIONS''"
| "method_name ALL' = ''ALL''"

text \<open>
  \<^verbatim>\<open>Params\<close> is an object from names to strings. A \<^verbatim>\<open>RegExpExecArray\<close> is the list of the
  whole match and the capture groups, a group that did not take part being \<^verbatim>\<open>undefined\<close>.
\<close>

type_synonym params = "string \<rightharpoonup> string"

type_synonym exec_array = "string option list"

type_synonym regexp = "string \<Rightarrow> exec_array option"

text \<open>
  A key of path-to-regexp. Its name is a string or a number; it is only ever used as a
  property name, so a numeric name is kept as its decimal string.
\<close>

record key =
  name :: string
  prefix :: string
  suffix :: string
  pattern :: string
  modifier :: string

text \<open>\<^verbatim>\<open>RouteOptions\<close>: every option may be absent. The field \<^verbatim>\<open>end\<close> is \<open>end'\<close> here.\<close>

record route_options =
  sensitive :: "bool option"
  strict :: "bool option"
  end' :: "bool option"
  start :: "bool option"
  delimiter :: "string option"
  endsWith :: "string option"
  encode :: "(string \<Rightarrow> string) option"

definition no_options :: route_options where
  "no_options = \<lparr>sensitive = None, strict = None, end' = None, start = None,
     delimiter = None, endsWith = None, encode = None\<rparr>"

record url =
  pathname :: string
  searchParams :: "(string \<times> string) list"

record request =
  req_method :: http_method
  req_url :: url
  req_headers :: "(string \<times> string) list"

text \<open>
  The headers of a response are a \<^verbatim>\<open>Headers\<close> object: names are compared without regard
  to case and \<^verbatim>\<open>get\<close> gives the value of a name. It is the map from the lower-case name
  to that value. The body is \<^verbatim>\<open>null\<close> or a string.
\<close>

record response =
  status :: nat
  statusText :: string
  res_headers :: "string \<rightharpoonup> string"
  body :: "string option"

text \<open>
  Modelled from the spec: the platform's \<^verbatim>\<open>Response\<close> constructor, which is not part of
  the repository (section 6 of the spec: a response is constructible fresh and copyable
  with overrides). \<^verbatim>\<open>new Response(body, init)\<close> reads \<^verbatim>\<open>status\<close>, \<^verbatim>\<open>statusText\<close> and
  \<^verbatim>\<open>headers\<close> of \<open>init\<close>, which may be an object literal (absent fields are 200, the
  empty string and no headers) or another response. The checks are those of the Fetch
  standard: a status outside 200 to 599 is a RangeError; a body that is not \<^verbatim>\<open>null\<close>
  with a null body status (of those in range: 204, 205, 304) is a TypeError; and a
  string body adds the header \<^verbatim>\<open>content-type\<close> when the headers have none. (A status text
  that is no reason phrase is a TypeError as well; the status texts that reach the
  constructor here are those of responses and the empty one.) The texts of the errors
  are the platform's own and stand here as short names.
\<close>

definition Response_new ::
  "string option \<Rightarrow> nat \<Rightarrow> string \<Rightarrow> (string \<rightharpoonup> string) \<Rightarrow> error + response" where
  "Response_new b s t hs =
     (if s < 200 \<or> 599 < s then Inl (RangeError ''status'')
      else (case b of
              None \<Rightarrow> Inr \<lparr>status = s, statusText = t, res_headers = hs, body = None\<rparr>
            | Some str \<Rightarrow>
                if s = 204 \<or> s = 205 \<or> s = 304 then Inl (TypeError ''null body status'')
                else Inr \<lparr>status = s, statusText = t,
                       res_headers =
                         (if hs ''content-type'' = None
                          then hs(''content-type'' \<mapsto> ''text/plain;charset=UTF-8'') else hs),
                       body = Some str\<rparr>))"

record ('v, 'env, 'ev) Context =
  ctx_request :: request
  ctx_query :: "(string \<times> string) list"
  ctx_headers :: "(string \<times> string) list"
  ctx_params :: params
  ctx_state :: "string \<rightharpoonup> 'v"
  ctx_env :: 'env
  ctx_event :: 'ev

type_synonym route_callback = "response \<Rightarrow> error option \<Rightarrow> error + response"

text \<open>What a handler's promise resolves to: \<^verbatim>\<open>Response | RouteCallback | undefined\<close>.\<close>

datatype handler_result = Response response | Callback route_callback | Undefined

type_synonym ('v, 'env, 'ev) handler =
  "('v, 'env, 'ev) Context \<Rightarrow> (error + handler_result) \<times> ('v, 'env, 'ev) Context"

record ('v, 'env, 'ev) route =
  route_method :: method_or_wildcard
  path :: string
  regexp :: regexp
  options :: route_options
  keys :: "key list"
  handler :: "('v, 'env, 'ev) handler"

record ('v, 'env, 'ev) route_match = "('v, 'env, 'ev) route" +
  params :: params
  matches_opt :: "exec_array option"

record ('v, 'env, 'ev) router =
  routes :: "('v, 'env, 'ev) route list"

text \<open>\<^verbatim>\<open>new Router()\<close>.\<close>

definition Router_new :: "('v, 'env, 'ev) router" where
  "Router_new = \<lparr>routes = []\<rparr>"

text \<open>
  What a generator produces when it is driven to its end: the values it yields, and
  then either its return or an exception thrown from its body.
\<close>

datatype 'a iterator = Done | Yield 'a "'a iterator" | Throw error

fun yielded :: "'a iterator \<Rightarrow> 'a list" where
  "yielded Done = []"
| "yielded (Yield x it) = x # yielded it"
| "yielded (Throw e) = []"

fun thrown :: "'a iterator \<Rightarrow> error option" where
  "thrown Done = None"
| "thrown (Yield x it) = thrown it"
| "thrown (Throw e) = Some e"

section \<open>Registration\<close>

text \<open>
  The pattern compiler \<^verbatim>\<open>pathToRegexp(path, keys, options)\<close>: it throws on a malformed
  template, and otherwise returns the regular expression and has filled \<open>keys\<close>.
\<close>

type_synonym compiler = "string \<Rightarrow> route_options \<Rightarrow> error + (regexp \<times> key list)"

text \<open>
  A registration call mutates the router and returns it, or throws. Its outcome is the
  exception, if any, together with the router as the call leaves it.
\<close>

type_synonym ('v, 'env, 'ev) registration = "error option \<times> ('v, 'env, 'ev) router"

definition push ::
  "compiler \<Rightarrow> method_or_wildcard \<Rightarrow> string \<Rightarrow> ('v, 'env, 'ev) handler \<Rightarrow> route_options \<Rightarrow>
   ('v, 'env, 'ev) router \<Rightarrow> ('v, 'env, 'ev) registration" where
  "push pc m p h opts this =
     (let p' = (if p = ''*'' then ''(.*)'' else p) in
      case pc p' opts of
        Inl e \<Rightarrow> (Some e, this)
      | Inr (re, ks) \<Rightarrow>
          (None, this\<lparr>routes := routes this @
             [\<lparr>route_method = m, path = p', regexp = re, options = opts, keys = ks, handler = h\<rparr>]\<rparr>))"

definition all ::
  "compiler \<Rightarrow> string \<Rightarrow> ('v, 'env, 'ev) handler \<Rightarrow> route_options \<Rightarrow>
   ('v, 'env, 'ev) router \<Rightarrow> ('v, 'env, 'ev) registration" where
  "all pc p h opts this = push pc ALL' p h opts this"

text \<open>\<^verbatim>\<open>this.push('GET', ...).push('HEAD', ...)\<close>: the second call runs only if the first returned.\<close>

definition get ::
  "compiler \<Rightarrow> string \<Rightarrow> ('v, 'env, 'ev) handler \<Rightarrow> route_options \<Rightarrow>
   ('v, 'env, 'ev) router \<Rightarrow> ('v, 'env, 'ev) registration" where
  "get pc p h opts this =
     (case push pc (Method GET) p h opts this of
        (Some e, this') \<Rightarrow> (Some e, this')
      | (None, this') \<Rightarrow> push pc (Method HEAD) p h opts this')"

definition post ::
  "compiler \<Rightarrow> string \<Rightarrow> ('v, 'env, 'ev) handler \<Rightarrow> route_options \<Rightarrow>
   ('v, 'env, 'ev) router \<Rightarrow> ('v, 'env, 'ev) registration" where
  "post pc p h opts this = push pc (Method POST) p h opts this"

definition put ::
  "compiler \<Rightarrow> string \<Rightarrow> ('v, 'env, 'ev) handler \<Rightarrow> route_options \<Rightarrow>
   ('v, 'env, 'ev) router \<Rightarrow> ('v, 'env, 'ev) registration" where
  "put pc p h opts this = push pc (Method PUT) p h opts this"

definition patch ::
  "compiler \<Rightarrow> string \<Rightarrow> ('v, 'env, 'ev) handler \<Rightarrow> route_options \<Rightarrow>
   ('v, 'env, 'ev) router \<Rightarrow> ('v, 'env, 'ev) registration" where
  "patch pc p h opts this = push pc (Method PATCH) p h opts this"

definition delete ::
  "compiler \<Rightarrow> string \<Rightarrow> ('v, 'env, 'ev) handler \<Rightarrow> route_options \<Rightarrow>
   ('v, 'env, 'ev) router \<Rightarrow> ('v, 'env, 'ev) registration" where
  "delete pc p h opts this = push pc (Method DELETE) p h opts this"

definition head ::
  "compiler \<Rightarrow> string \<Rightarrow> ('v, 'env, 'ev) handler \<Rightarrow> route_options \<Rightarrow>
   ('v, 'env, 'ev) router \<Rightarrow> ('v, 'env, 'ev) registration" where
  "head pc p h opts this = push pc (Method HEAD) p h opts this"

text \<open>The shorthand \<^verbatim>\<open>options\<close>; the name is taken by the field of a route.\<close>

definition options' ::
  "compiler \<Rightarrow> string \<Rightarrow> ('v, 'env, 'ev) handler \<Rightarrow> route_options \<Rightarrow>
   ('v, 'env, 'ev) router \<Rightarrow> ('v, 'env, 'ev) registration" where
  "options' pc p h opts this = push pc (Method OPTIONS) p h opts this"

definition use ::
  "compiler \<Rightarrow> ('v, 'env, 'ev) handler \<Rightarrow> route_options \<Rightarrow>
   ('v, 'env, 'ev) router \<Rightarrow> ('v, 'env, 'ev) registration" where
  "use pc h opts this = push pc ALL' ''*'' h opts this"

section \<open>The matcher\<close>

text \<open>
  \<^verbatim>\<open>keysToParams\<close>: the loop runs over the captures \<open>matches[1..]\<close> with the keys beside
  them. Reading \<^verbatim>\<open>key.name\<close> where \<^verbatim>\<open>keys[i - 1]\<close> is \<^verbatim>\<open>undefined\<close> throws a TypeError,
  before the capture is looked at. The assignment \<^verbatim>\<open>params[prop] = val\<close> creates or
  overwrites the property, except for the name \<^verbatim>\<open>__proto__\<close>: on a plain object that
  assignment runs the inherited setter, which ignores a string, and no property appears.
\<close>

fun keysToParams_loop :: "exec_array \<Rightarrow> key list \<Rightarrow> params \<Rightarrow> error + params" where
  "keysToParams_loop [] ks ps = Inr ps"
| "keysToParams_loop (val # vals) [] ps = Inl (TypeError ''Cannot read properties of undefined'')"
| "keysToParams_loop (val # vals) (k # ks) ps =
     keysToParams_loop vals ks
       (case val of
          None \<Rightarrow> ps
        | Some v \<Rightarrow> if name k = ''__proto__'' then ps else ps(name k \<mapsto> v))"

definition keysToParams :: "exec_array \<Rightarrow> key list \<Rightarrow> error + params" where
  "keysToParams ms ks = keysToParams_loop (tl ms) ks Map.empty"

text \<open>
  The generator \<^verbatim>\<open>matches\<close>. One equation is one turn of its \<^verbatim>\<open>for\<close> loop: the method
  filter, the two shortcuts (a \<^verbatim>\<open>yield\<close> each, after which the body goes on), then the
  regular expression. The object \<^verbatim>\<open>{ ...route, matches, params }\<close> is written out.
\<close>

definition spread ::
  "('v, 'env, 'ev) route \<Rightarrow> exec_array option \<Rightarrow> params \<Rightarrow> ('v, 'env, 'ev) route_match" where
  "spread r ms ps =
     \<lparr>route_method = route_method r, path = path r, regexp = regexp r, options = options r, keys = keys r,
      handler = handler r, params = ps, matches_opt = ms\<rparr>"

definition yield_if :: "bool \<Rightarrow> 'a \<Rightarrow> 'a iterator \<Rightarrow> 'a iterator" where
  "yield_if b x rest = (if b then Yield x rest else rest)"

fun matches_loop ::
  "('v, 'env, 'ev) route list \<Rightarrow> http_method \<Rightarrow> string \<Rightarrow> ('v, 'env, 'ev) route_match iterator" where
  "matches_loop [] m pn = Done"
| "matches_loop (route # rest) m pn =
     (if route_method route \<noteq> Method m \<and> route_method route \<noteq> ALL' then matches_loop rest m pn
      else
        yield_if (path route = ''(.*)'') (spread route None [''0'' \<mapsto> path route])
       (yield_if (path route = ''/'' \<and> end' (options route) = Some False) (spread route None Map.empty)
         (case regexp route pn of
            None \<Rightarrow> matches_loop rest m pn
          | Some ms \<Rightarrow>
              if ms = [] then matches_loop rest m pn
              else (case keysToParams ms (keys route) of
                      Inl e \<Rightarrow> Throw e
                    | Inr ps \<Rightarrow> Yield (spread route (Some ms) ps) (matches_loop rest m pn)))))"

definition matches ::
  "('v, 'env, 'ev) router \<Rightarrow> http_method \<Rightarrow> string \<Rightarrow> ('v, 'env, 'ev) route_match iterator" where
  "matches this m pn = matches_loop (routes this) m pn"

section \<open>The allowed-methods handler\<close>

text \<open>
  The object \<^verbatim>\<open>allow\<close> has method names as its property names, so \<^verbatim>\<open>Object.keys\<close> lists
  them in the order of their first assignment: it is the list of its names, and
  \<^verbatim>\<open>allow[name] = true\<close> appends a name that is not there yet.
\<close>

definition allow_set :: "string list \<Rightarrow> string \<Rightarrow> string list" where
  "allow_set allow nm = (if nm \<in> set allow then allow else allow @ [nm])"

text \<open>\<^verbatim>\<open>Array.prototype.join\<close> on strings.\<close>

fun join :: "string \<Rightarrow> string list \<Rightarrow> string" where
  "join sep [] = []"
| "join sep [x] = x"
| "join sep (x # y # ys) = x @ sep @ join sep (y # ys)"

text \<open>The \<^verbatim>\<open>forEach\<close> over the routes, threading \<^verbatim>\<open>allow\<close>.\<close>

fun allowed_loop :: "('v, 'env, 'ev) route list \<Rightarrow> string \<Rightarrow> string list \<Rightarrow> string list" where
  "allowed_loop [] pn allow = allow"
| "allowed_loop (route # rest) pn allow =
     (if route_method route = ALL' then allowed_loop rest pn allow
      else (case regexp route pn of
              None \<Rightarrow> allowed_loop rest pn allow
            | Some ms \<Rightarrow>
                if ms = [] then allowed_loop rest pn allow
                else allowed_loop rest pn (allow_set allow (method_name (route_method route)))))"

definition allowedMethods :: "('v, 'env, 'ev) router \<Rightarrow> ('v, 'env, 'ev) handler" where
  "allowedMethods this ctx =
     (let pn = pathname (req_url (ctx_request ctx));
          allow = allowed_loop (routes this) pn [''OPTIONS'']
      in (case Response_new None 204 [] [''allow'' \<mapsto> join '', '' allow] of
            Inl e \<Rightarrow> (Inl e, ctx)
          | Inr r \<Rightarrow> (Inr (Response r), ctx)))"

section \<open>The dispatcher\<close>

text \<open>
  The inner loop of \<^verbatim>\<open>handle\<close> over the accumulated callbacks: a callback that returns
  replaces \<^verbatim>\<open>result\<close>, one that throws replaces \<^verbatim>\<open>error\<close>.
\<close>

fun run_callbacks ::
  "route_callback list \<Rightarrow> response \<Rightarrow> error option \<Rightarrow> response \<times> error option" where
  "run_callbacks [] result err = (result, err)"
| "run_callbacks (callback # rest) result err =
     (case callback result err of
        Inr result' \<Rightarrow> run_callbacks rest result' err
      | Inl e \<Rightarrow> run_callbacks rest result (Some e))"

text \<open>
  The branch \<^verbatim>\<open>result instanceof Response\<close>: run the callbacks, then, when the request
  is a HEAD request, return \<^verbatim>\<open>new Response('', result)\<close>. That call is outside every
  \<^verbatim>\<open>try\<close>: what it throws leaves \<^verbatim>\<open>handle\<close>.
\<close>

definition finalize ::
  "request \<Rightarrow> route_callback list \<Rightarrow> response \<Rightarrow> error option \<Rightarrow> error + response" where
  "finalize req callbacks result err =
     (let result' = fst (run_callbacks callbacks result err)
      in if req_method req = HEAD
         then Response_new (Some []) (status result') (statusText result') (res_headers result')
         else Inr result')"

text \<open>
  The \<^verbatim>\<open>try\<close>/\<^verbatim>\<open>catch\<close> around the call of the handler: the error and the result after it.
  The constructor call in the \<^verbatim>\<open>catch\<close> block is not itself guarded.
\<close>

definition call_handler ::
  "('v, 'env, 'ev) handler \<Rightarrow> ('v, 'env, 'ev) Context \<Rightarrow>
   error + (error option \<times> handler_result) \<times> ('v, 'env, 'ev) Context" where
  "call_handler h ctx =
     (case h ctx of
        (Inr result, ctx') \<Rightarrow> Inr ((None, result), ctx')
      | (Inl e, ctx') \<Rightarrow>
          (case Response_new (Some ''Server Error'') 500 [] Map.empty of
             Inl e' \<Rightarrow> Inl e'
           | Inr r \<Rightarrow> Inr ((Some e, Response r), ctx')))"

text \<open>
  The \<^verbatim>\<open>for await\<close> loop of \<^verbatim>\<open>handle\<close> over the generator. An exception of the generator
  is outside every \<^verbatim>\<open>try\<close> and leaves \<^verbatim>\<open>handle\<close>; when the generator is done the loop
  ends and the statement after it returns the 404 response.
\<close>

fun handle_loop ::
  "request \<Rightarrow> ('v, 'env, 'ev) route_match iterator \<Rightarrow> route_callback list \<Rightarrow>
   ('v, 'env, 'ev) Context \<Rightarrow> error + response" where
  "handle_loop req Done callbacks ctx = Response_new (Some ''Not Found'') 404 [] Map.empty"
| "handle_loop req (Throw e) callbacks ctx = Inl e"
| "handle_loop req (Yield match rest) callbacks ctx =
     (case call_handler (handler match) (ctx\<lparr>ctx_params := params match\<rparr>) of
        Inl e \<Rightarrow> Inl e
      | Inr ((err, Response result), ctx') \<Rightarrow> finalize req callbacks result err
      | Inr ((err, Callback cb), ctx') \<Rightarrow> handle_loop req rest (callbacks @ [cb]) ctx'
      | Inr ((err, Undefined), ctx') \<Rightarrow> handle_loop req rest callbacks ctx')"

definition handle ::
  "('v, 'env, 'ev) router \<Rightarrow> request \<Rightarrow> 'env \<Rightarrow> 'ev \<Rightarrow> error + response" where
  "handle this req env event =
     (let u = req_url req;
          ms = matches this (req_method req) (pathname u);
          ctx = \<lparr>ctx_request = req, ctx_query = searchParams u, ctx_headers = req_headers req,
                 ctx_params = Map.empty, ctx_state = Map.empty, ctx_env = env, ctx_event = event\<rparr>
      in handle_loop req ms [] ctx)"

text \<open>
  For the statements about \<^verbatim>\<open>handle\<close>: the candidates that come before the one that ends
  the request. Each of their handlers, called with the context the one before it left
  and with the parameters of its own match, returns \<^verbatim>\<open>undefined\<close> or a callback.
  \<open>deferred\<close> gives the callbacks they return, in the order of the candidates, and the
  context the last one leaves; it gives \<open>None\<close> when one of them throws or returns a
  response.
\<close>

fun deferred ::
  "('v, 'env, 'ev) route_match list \<Rightarrow> ('v, 'env, 'ev) Context \<Rightarrow>
   (route_callback list \<times> ('v, 'env, 'ev) Context) option" where
  "deferred [] ctx = Some ([], ctx)"
| "deferred (match # rest) ctx =
     (case handler match (ctx\<lparr>ctx_params := params match\<rparr>) of
        (Inl e, ctx') \<Rightarrow> None
      | (Inr (Response r), ctx') \<Rightarrow> None
      | (Inr Undefined, ctx') \<Rightarrow> deferred rest ctx'
      | (Inr (Callback cb), ctx') \<Rightarrow>
          (case deferred rest ctx' of
             None \<Rightarrow> None
           | Some (cbs, ctx'') \<Rightarrow> Some (cb # cbs, ctx'')))"

section \<open>A sample compiler, sample handlers and sample requests\<close>

text \<open>
  Concrete inputs for the examples below. The sample compiler stands in for
  path-to-regexp on the two kinds of template the examples use. For the catch-all
  \<^verbatim>\<open>(.*)\<close> the compiled expression is \<^verbatim>\<open>^(.*)[\/#\?]?$\<close> with the key \<^verbatim>\<open>0\<close>: the dot matches
  no line terminator, so a path with a line feed or a carriage return is rejected, and
  any other path is accepted and captured whole. For a template without special
  characters the sample expression accepts that very path and captures nothing. Every
  other template is rejected.
\<close>

definition literal_regexp :: "string \<Rightarrow> regexp" where
  "literal_regexp p pn = (if pn = p then Some [Some pn] else None)"

definition catch_all_regexp :: regexp where
  "catch_all_regexp pn =
     (if \<exists>c \<in> set pn. c = CHR 0x0A \<or> c = CHR 0x0D then None else Some [Some pn, Some pn])"

definition sample_compiler :: compiler where
  "sample_compiler p opts =
     (if p = ''(.*)'' then
        Inr (catch_all_regexp, [\<lparr>name = ''0'', prefix = [], suffix = [], pattern = ''.*'', modifier = []\<rparr>])
      else if \<exists>c \<in> set p. c \<in> set ''(:)*?+{}'' then Inl (TypeError ''Unexpected character'')
      else Inr (literal_regexp p, []))"

text \<open>
  Responses: \<^verbatim>\<open>new Response(s)\<close> for a string, \<^verbatim>\<open>new Response(null, {status: 204})\<close> and
  \<^verbatim>\<open>new Response(null)\<close>.
\<close>

definition text_response :: "string \<Rightarrow> response" where
  "text_response s =
     \<lparr>status = 200, statusText = [],
      res_headers = [''content-type'' \<mapsto> ''text/plain;charset=UTF-8''], body = Some s\<rparr>"

definition hello :: response where
  "hello = text_response ''hello''"

definition no_content :: response where
  "no_content = \<lparr>status = 204, statusText = [], res_headers = Map.empty, body = None\<rparr>"

definition bare :: response where
  "bare = \<lparr>status = 200, statusText = [], res_headers = Map.empty, body = None\<rparr>"

text \<open>
  Handlers: one that returns \<^verbatim>\<open>undefined\<close>, one that returns a given response, one that
  throws, one that returns a callback, and one that answers with the parameter \<^verbatim>\<open>0\<close> it
  was given. Callbacks: one that sets a header, one that sets the status, one that
  writes the error it is given into a header, and one that throws.
\<close>

definition pass :: "('v, 'env, 'ev) handler" where
  "pass ctx = (Inr Undefined, ctx)"

definition respond :: "response \<Rightarrow> ('v, 'env, 'ev) handler" where
  "respond r ctx = (Inr (Response r), ctx)"

definition failing :: "error \<Rightarrow> ('v, 'env, 'ev) handler" where
  "failing e ctx = (Inl e, ctx)"

definition middleware :: "route_callback \<Rightarrow> ('v, 'env, 'ev) handler" where
  "middleware cb ctx = (Inr (Callback cb), ctx)"

definition echo_param :: "('v, 'env, 'ev) handler" where
  "echo_param ctx =
     (Inr (Response (text_response (case ctx_params ctx ''0'' of None \<Rightarrow> [] | Some v \<Rightarrow> v))), ctx)"

definition add_header :: "string \<times> string \<Rightarrow> route_callback" where
  "add_header h r e = Inr (r\<lparr>res_headers := (res_headers r)(fst h \<mapsto> snd h)\<rparr>)"

definition set_status :: "nat \<Rightarrow> route_callback" where
  "set_status n r e = Inr (r\<lparr>status := n\<rparr>)"

fun error_text :: "error option \<Rightarrow> string" where
  "error_text None = ''none''"
| "error_text (Some (Error m)) = m"
| "error_text (Some (TypeError m)) = m"
| "error_text (Some (RangeError m)) = m"

definition note_error :: "string \<Rightarrow> route_callback" where
  "note_error k r e = Inr (r\<lparr>res_headers := (res_headers r)(k \<mapsto> error_text e)\<rparr>)"

definition failing_callback :: "error \<Rightarrow> route_callback" where
  "failing_callback e r e0 = Inl e"

definition request_to :: "http_method \<Rightarrow> string \<Rightarrow> request" where
  "request_to m pn = \<lparr>req_method = m, req_url = \<lparr>pathname = pn, searchParams = []\<rparr>, req_headers = []\<rparr>"

definition context_of :: "request \<Rightarrow> (unit, unit, unit) Context" where
  "context_of req =
     \<lparr>ctx_request = req, ctx_query = searchParams (req_url req), ctx_headers = req_headers req,
      ctx_params = Map.empty, ctx_state = Map.empty, ctx_env = (), ctx_event = ()\<rparr>"

text \<open>
  Routers built with the registration functions, as
  \<^verbatim>\<open>new Router().use(pass).get('/a', respond)\<close> and the like.
\<close>

definition sample_router :: "(unit, unit, unit) router" where
  "sample_router =
     snd (get sample_compiler ''/a'' (respond hello) no_options
       (snd (use sample_compiler pass no_options Router_new)))"

definition get_only_router :: "(unit, unit, unit) router" where
  "get_only_router = snd (get sample_compiler ''/a'' (respond hello) no_options Router_new)"

definition middleware_router :: "(unit, unit, unit) router" where
  "middleware_router =
     snd (use sample_compiler (middleware (add_header (''x-seen'', ''1''))) no_options
       (snd (use sample_compiler pass no_options Router_new)))"

definition failing_router :: "(unit, unit, unit) router" where
  "failing_router = snd (get sample_compiler ''/a'' (failing (Error ''boom'')) no_options Router_new)"

definition no_content_router :: "(unit, unit, unit) router" where
  "no_content_router = snd (get sample_compiler ''/a'' (respond no_content) no_options Router_new)"

definition bare_router :: "(unit, unit, unit) router" where
  "bare_router = snd (get sample_compiler ''/a'' (respond bare) no_options Router_new)"

definition status_router :: "(unit, unit, unit) router" where
  "status_router =
     snd (get sample_compiler ''/a'' (respond hello) no_options
       (snd (all sample_compiler ''/a'' (middleware (set_status 203)) no_options Router_new)))"

text \<open>
  \<^verbatim>\<open>all('/a', pass)\<close>, then four middlewares on \<^verbatim>\<open>/a\<close> whose callbacks note the error, set
  a header, throw, and note the error again, then \<^verbatim>\<open>get('/a', h)\<close>.
\<close>

definition callbacks_router :: "(unit, unit, unit) handler \<Rightarrow> (unit, unit, unit) router" where
  "callbacks_router h =
     snd (get sample_compiler ''/a'' h no_options
      (snd (all sample_compiler ''/a'' (middleware (note_error ''x-last'')) no_options
       (snd (all sample_compiler ''/a'' (middleware (failing_callback (Error ''late''))) no_options
        (snd (all sample_compiler ''/a'' (middleware (add_header (''x-a'', ''1''))) no_options
         (snd (all sample_compiler ''/a'' (middleware (note_error ''x-first'')) no_options
          (snd (all sample_compiler ''/a'' pass no_options Router_new)))))))))))"

definition get_post_router :: "(unit, unit, unit) router" where
  "get_post_router =
     snd (post sample_compiler ''/a'' (respond hello) no_options
       (snd (get sample_compiler ''/a'' (respond hello) no_options Router_new)))"

definition wildcard_router :: "(unit, unit, unit) router" where
  "wildcard_router = snd (all sample_compiler ''*'' echo_param no_options Router_new)"

text \<open>A route written out: what \<^verbatim>\<open>use(pass)\<close> produces.\<close>

definition catch_all_route :: "(unit, unit, unit) route" where
  "catch_all_route =
     \<lparr>route_method = ALL', path = ''(.*)'', regexp = catch_all_regexp, options = no_options,
      keys = [\<lparr>name = ''0'', prefix = [], suffix = [], pattern = ''.*'', modifier = []\<rparr>],
      handler = pass\<rparr>"

section \<open>Lemmas about the matcher\<close>

lemmas fixture_defs = sample_router_def get_only_router_def middleware_router_def failing_router_def
  no_content_router_def bare_router_def status_router_def callbacks_router_def
  get_post_router_def wildcard_router_def context_of_def
  get_def use_def push_def post_def all_def sample_compiler_def Router_new_def
  matches_def keysToParams_def catch_all_regexp_def literal_regexp_def spread_def no_options_def Let_def
  request_to_def handle_def call_handler_def respond_def pass_def failing_def middleware_def
  finalize_def Response_new_def hello_def text_response_def no_content_def bare_def echo_param_def
  add_header_def set_status_def note_error_def failing_callback_def

lemma yield_if_simps [simp]:
  "yield_if True x it = Yield x it" "yield_if False x it = it"
  by (simp_all add: yield_if_def)

lemma yielded_matches_loop_append:
  "yielded (matches_loop (xs @ ys) m pn) =
     yielded (matches_loop xs m pn) @
       (if thrown (matches_loop xs m pn) = None then yielded (matches_loop ys m pn) else [])"
  by (induction xs) (auto simp: yield_if_def split: option.splits sum.splits)





lemma matches_loop_Done:
  assumes "\<forall>r \<in> set rs.
     (route_method r \<noteq> Method m \<and> route_method r \<noteq> ALL') \<or>
     (path r \<noteq> ''(.*)'' \<and> \<not> (path r = ''/'' \<and> end' (options r) = Some False) \<and>
      (regexp r pn = None \<or> regexp r pn = Some []))"
  shows "matches_loop rs m pn = Done"
  using assms by (induction rs) (auto simp: yield_if_def)

lemma keysToParams_loop_ok:
  "length vals \<le> length ks \<Longrightarrow> \<exists>ps'. keysToParams_loop vals ks ps = Inr ps'"
  by (induction vals ks ps rule: keysToParams_loop.induct) auto

lemma keysToParams_ok:
  "length ms \<le> Suc (length ks) \<Longrightarrow> \<exists>ps. keysToParams ms ks = Inr ps"
  unfolding keysToParams_def by (rule keysToParams_loop_ok) (cases ms; simp)

lemma aligned_not_thrown:
  assumes "\<forall>r \<in> set rs. \<forall>ms. regexp r pn = Some ms \<longrightarrow> length ms \<le> Suc (length (keys r))"
  shows "thrown (matches_loop rs m pn) = None"
  using assms
proof (induction rs)
  case Nil
  then show ?case by simp
next
  case (Cons r rs)
  then have ih: "thrown (matches_loop rs m pn) = None" by simp
  show ?case
  proof (cases "regexp r pn")
    case None
    then show ?thesis using ih by (simp add: yield_if_def)
  next
    case (Some ms)
    with Cons.prems have "length ms \<le> Suc (length (keys r))" by simp
    then obtain ps where "keysToParams ms (keys r) = Inr ps" using keysToParams_ok by blast
    then show ?thesis using ih Some by (simp add: yield_if_def)
  qed
qed


section \<open>Lemmas about the response constructor\<close>

lemma Response_not_found:
  "Response_new (Some ''Not Found'') 404 [] Map.empty =
     Inr \<lparr>status = 404, statusText = [],
          res_headers = [''content-type'' \<mapsto> ''text/plain;charset=UTF-8''],
          body = Some ''Not Found''\<rparr>"
  by (simp add: Response_new_def)


lemma Response_without_body:
  "200 \<le> s \<Longrightarrow> s \<le> 599 \<Longrightarrow>
   Response_new None s t hs = Inr \<lparr>status = s, statusText = t, res_headers = hs, body = None\<rparr>"
  by (simp add: Response_new_def)


section \<open>Lemmas about the dispatcher\<close>

lemma run_callbacks_append:
  "run_callbacks (xs @ ys) r e = (case run_callbacks xs r e of (r', e') \<Rightarrow> run_callbacks ys r' e')"
  by (induction xs arbitrary: r e) (auto split: sum.splits)

lemma split_last:
  "length xs = Suc n \<Longrightarrow> xs = take n xs @ xs ! n # []"
  using id_take_nth_drop [of n xs] by simp

lemma iterator_of_yielded:
  "yielded it = pre @ mt # after \<Longrightarrow> \<exists>rest. it = foldr Yield pre (Yield mt rest)"
proof (induction pre arbitrary: it)
  case Nil
  then show ?case by (cases it) auto
next
  case (Cons p pre)
  then obtain it' where it: "it = Yield p it'" and y: "yielded it' = pre @ mt # after"
    by (cases it) auto
  from Cons.IH [OF y] obtain rest where "it' = foldr Yield pre (Yield mt rest)" by blast
  with it show ?case by auto
qed

lemma handle_loop_deferred:
  "deferred pre c = Some (cbs, c1) \<Longrightarrow>
   handle_loop req (foldr Yield pre it) cbs0 c = handle_loop req it (cbs0 @ cbs) c1"
proof (induction pre arbitrary: c cbs cbs0)
  case Nil
  then show ?case by simp
next
  case (Cons p pre)
  obtain res c' where h: "handler p (c\<lparr>ctx_params := params p\<rparr>) = (res, c')"
    by (cases "handler p (c\<lparr>ctx_params := params p\<rparr>)")
  show ?case
  proof (cases res)
    case (Inl e)
    with Cons.prems h show ?thesis by simp
  next
    case (Inr result)
    show ?thesis
    proof (cases result)
      case (Response r)
      with Cons.prems h Inr show ?thesis by simp
    next
      case (Callback cb)
      with Cons.prems h Inr obtain cbs' where d: "deferred pre c' = Some (cbs', c1)" and c: "cbs = cb # cbs'"
        by (auto split: option.splits)
      from Cons.IH [OF d, of "cbs0 @ [cb]"] h Inr Callback c show ?thesis
        by (simp add: call_handler_def)
    next
      case Undefined
      with Cons.prems h Inr have d: "deferred pre c' = Some (cbs, c1)" by simp
      from Cons.IH [OF d, of cbs0] h Inr Undefined show ?thesis
        by (simp add: call_handler_def)
    qed
  qed
qed

lemma handle_terminating:
  assumes "yielded (matches this (req_method req) (pathname (req_url req))) = pre @ mt # after"
    and "deferred pre
           \<lparr>ctx_request = req, ctx_query = searchParams (req_url req), ctx_headers = req_headers req,
            ctx_params = Map.empty, ctx_state = Map.empty, ctx_env = env, ctx_event = event\<rparr> =
         Some (cbs, c1)"
    and "call_handler (handler mt) (c1\<lparr>ctx_params := params mt\<rparr>) = Inr ((err, Response result), c2)"
  shows "handle this req env event = finalize req cbs result err"
proof -
  from iterator_of_yielded [OF assms(1)] obtain rest where
    it: "matches this (req_method req) (pathname (req_url req)) = foldr Yield pre (Yield mt rest)"
    by blast
  show ?thesis
    unfolding handle_def Let_def it handle_loop_deferred [OF assms(2)]
    using assms(3) by simp
qed

lemma handle_loop_nonterminal:
  assumes "thrown it = None"
    and "\<forall>mt \<in> set (yielded it). \<forall>c.
           fst (handler mt c) = Inr Undefined \<or> (\<exists>cb. fst (handler mt c) = Inr (Callback cb))"
  shows "handle_loop req it cbs ctx = Response_new (Some ''Not Found'') 404 [] Map.empty"
  using assms
proof (induction it arbitrary: cbs ctx)
  case Done
  then show ?case by simp
next
  case (Yield mt it)
  let ?c = "ctx\<lparr>ctx_params := params mt\<rparr>"
  from Yield.prems(2) have "fst (handler mt ?c) = Inr Undefined \<or> (\<exists>cb. fst (handler mt ?c) = Inr (Callback cb))"
    by simp
  then show ?case
  proof
    assume "fst (handler mt ?c) = Inr Undefined"
    then obtain c' where "handler mt ?c = (Inr Undefined, c')" by (cases "handler mt ?c") simp
    then show ?thesis using Yield by (simp add: call_handler_def)
  next
    assume "\<exists>cb. fst (handler mt ?c) = Inr (Callback cb)"
    then obtain cb c' where "handler mt ?c = (Inr (Callback cb), c')" by (cases "handler mt ?c") auto
    then show ?thesis using Yield by (simp add: call_handler_def)
  qed
next
  case (Throw e)
  then show ?case by simp
qed




section \<open>Lemmas about the allowed-methods handler\<close>

text \<open>
  \<open>rev (remdups (rev xs))\<close> keeps the first occurrence of every element of \<open>xs\<close>, in the
  order of \<open>xs\<close>.
\<close>

lemma allow_set_first_occurrence:
  "allow_set allow nm = rev (remdups (rev (allow @ [nm])))" if "distinct allow"
  using that by (simp add: allow_set_def distinct_remdups_id)

lemma first_occurrence_append:
  "rev (remdups (rev (rev (remdups (rev xs)) @ ys))) = rev (remdups (rev (xs @ ys)))"
  by (simp add: remdups_append2)

lemma allowed_loop_first_occurrence:
  "distinct allow \<Longrightarrow>
   allowed_loop rs pn allow =
     rev (remdups (rev (allow @
       map (\<lambda>r. method_name (route_method r))
         (filter (\<lambda>r. route_method r \<noteq> ALL' \<and> regexp r pn \<noteq> None \<and> regexp r pn \<noteq> Some []) rs))))"
proof (induction rs arbitrary: allow)
  case Nil
  then show ?case by (simp add: distinct_remdups_id)
next
  case (Cons r rs)
  show ?case
  proof (cases "route_method r \<noteq> ALL' \<and> regexp r pn \<noteq> None \<and> regexp r pn \<noteq> Some []")
    case False
    then show ?thesis using Cons by (auto split: option.splits)
  next
    case True
    let ?nm = "method_name (route_method r)"
    let ?names = "map (\<lambda>r. method_name (route_method r))
         (filter (\<lambda>r. route_method r \<noteq> ALL' \<and> regexp r pn \<noteq> None \<and> regexp r pn \<noteq> Some []) rs)"
    have d: "distinct (allow_set allow ?nm)"
      using Cons.prems by (simp add: allow_set_def)
    have "allowed_loop (r # rs) pn allow = allowed_loop rs pn (allow_set allow ?nm)"
      using True by (auto split: option.splits)
    also have "\<dots> = rev (remdups (rev (allow_set allow ?nm @ ?names)))"
      using Cons.IH [OF d] .
    also have "\<dots> = rev (remdups (rev (rev (remdups (rev (allow @ [?nm]))) @ ?names)))"
      using allow_set_first_occurrence [OF Cons.prems] by simp
    also have "\<dots> = rev (remdups (rev ((allow @ [?nm]) @ ?names)))"
      by (rule first_occurrence_append)
    finally show ?thesis using True by simp
  qed
qed

section \<open>Match order\<close>



section \<open>A handler that throws\<close>




section \<open>No match\<close>

text \<open>
  C3. When every route either has another method (and is not an \<^verbatim>\<open>ALL\<close> route) or has
  neither shortcut nor an expression that accepts the path, \<open>handle\<close> returns the response
  with status 404 and body \<^verbatim>\<open>Not Found\<close>.
\<close>

theorem no_match_gives_404:
  assumes "\<forall>r \<in> set (routes this).
     (route_method r \<noteq> Method (req_method req) \<and> route_method r \<noteq> ALL') \<or>
     (path r \<noteq> ''(.*)'' \<and> \<not> (path r = ''/'' \<and> end' (options r) = Some False) \<and>
      (regexp r (pathname (req_url req)) = None \<or> regexp r (pathname (req_url req)) = Some []))"
  shows "handle this req env event =
           Inr \<lparr>status = 404, statusText = [],
                res_headers = [''content-type'' \<mapsto> ''text/plain;charset=UTF-8''],
                body = Some ''Not Found''\<rparr> \<and>
         (\<exists>resp. handle this req env event = Inr resp \<and> status resp = 404 \<and> body resp = Some ''Not Found'')"
proof -
  have "handle this req env event = Response_new (Some ''Not Found'') 404 [] Map.empty"
    using matches_loop_Done [OF assms] by (simp add: handle_def matches_def)
  then show ?thesis by (simp only: Response_not_found) simp
qed

theorem no_match_gives_404_witness:
  "map route_method (routes get_only_router) = [Method GET, Method HEAD] \<and>
   map path (routes get_only_router) = [''/a'', ''/a''] \<and>
   handle get_only_router (request_to GET ''/b'') () () =
     Inr \<lparr>status = 404, statusText = [],
          res_headers = [''content-type'' \<mapsto> ''text/plain;charset=UTF-8''],
          body = Some ''Not Found''\<rparr>"
proof -
  have h: "\<forall>r \<in> set (routes get_only_router).
     (route_method r \<noteq> Method (req_method (request_to GET ''/b'')) \<and> route_method r \<noteq> ALL') \<or>
     (path r \<noteq> ''(.*)'' \<and> \<not> (path r = ''/'' \<and> end' (options r) = Some False) \<and>
      (regexp r (pathname (req_url (request_to GET ''/b''))) = None \<or> regexp r (pathname (req_url (request_to GET ''/b''))) = Some []))"
    by (simp add: get_only_router_def get_def push_def sample_compiler_def Router_new_def request_to_def literal_regexp_def Let_def)
  have r: "map route_method (routes get_only_router) = [Method GET, Method HEAD] \<and>
   map path (routes get_only_router) = [''/a'', ''/a'']"
    by (simp add: get_only_router_def get_def push_def sample_compiler_def Router_new_def Let_def)
  from no_match_gives_404 [OF h] r show ?thesis by blast
qed

section \<open>GET registers HEAD, and HEAD responses have no body\<close>




section \<open>The Allow header\<close>

text \<open>
  C5, as stated, fails: \<open>get\<close> registers a HEAD route too, and the scan lists it, so the
  header for GET and POST routes registered with the shorthands is
  \<^verbatim>\<open>OPTIONS, GET, HEAD, POST\<close>.
\<close>

theorem allowed_methods_lists_head_counterexample:
  "fst (allowedMethods get_post_router (context_of (request_to OPTIONS ''/a''))) =
     Inr (Response \<lparr>status = 204, statusText = [], res_headers = [''allow'' \<mapsto> ''OPTIONS, GET, HEAD, POST''], body = None\<rparr>) \<and>
   ''OPTIONS, GET, HEAD, POST'' \<noteq> ''OPTIONS, GET, POST''"
  by (simp add: allowedMethods_def allow_set_def fixture_defs)

text \<open>
  C5, amended. The handler of \<open>allowedMethods\<close> returns status 204 with the one header
  \<^verbatim>\<open>allow\<close>: \<^verbatim>\<open>OPTIONS\<close> first, then the method of every route that is not an \<^verbatim>\<open>ALL\<close>
  route and whose expression accepts the path, in table order, each name once. For a
  router on which \<open>get\<close> and then \<open>post\<close> registered a path whose expressions accept the
  request path, the header is exactly \<^verbatim>\<open>OPTIONS, GET, HEAD, POST\<close>.
\<close>

theorem allowed_methods_header:
  "allowedMethods this ctx =
     (Inr (Response \<lparr>status = 204, statusText = [], res_headers =
        [''allow'' \<mapsto> join '', ''
           (rev (remdups (rev (''OPTIONS'' #
              map (\<lambda>r. method_name (route_method r))
                (filter (\<lambda>r. route_method r \<noteq> ALL' \<and>
                             regexp r (pathname (req_url (ctx_request ctx))) \<noteq> None \<and>
                             regexp r (pathname (req_url (ctx_request ctx))) \<noteq> Some [])
                   (routes this))))))], body = None\<rparr>), ctx) \<and>
   (pc (if p = ''*'' then ''(.*)'' else p) opts1 = Inr (re1, ks1) \<and>
    pc (if p = ''*'' then ''(.*)'' else p) opts2 = Inr (re2, ks2) \<and>
    re1 (pathname (req_url (ctx_request ctx))) = Some ms1 \<and> ms1 \<noteq> [] \<and>
    re2 (pathname (req_url (ctx_request ctx))) = Some ms2 \<and> ms2 \<noteq> [] \<longrightarrow>
    allowedMethods (snd (post pc p h2 opts2 (snd (get pc p h1 opts1 Router_new)))) ctx =
      (Inr (Response \<lparr>status = 204, statusText = [], res_headers = [''allow'' \<mapsto> ''OPTIONS, GET, HEAD, POST''], body = None\<rparr>), ctx))"
proof (intro conjI impI)
  show "allowedMethods this ctx =
     (Inr (Response \<lparr>status = 204, statusText = [], res_headers =
        [''allow'' \<mapsto> join '', ''
           (rev (remdups (rev (''OPTIONS'' #
              map (\<lambda>r. method_name (route_method r))
                (filter (\<lambda>r. route_method r \<noteq> ALL' \<and>
                             regexp r (pathname (req_url (ctx_request ctx))) \<noteq> None \<and>
                             regexp r (pathname (req_url (ctx_request ctx))) \<noteq> Some [])
                   (routes this))))))], body = None\<rparr>), ctx)"
    using allowed_loop_first_occurrence [of "[''OPTIONS'']" "routes this" "pathname (req_url (ctx_request ctx))"]
    by (simp add: allowedMethods_def Let_def Response_new_def)
next
  assume a: "pc (if p = ''*'' then ''(.*)'' else p) opts1 = Inr (re1, ks1) \<and>
    pc (if p = ''*'' then ''(.*)'' else p) opts2 = Inr (re2, ks2) \<and>
    re1 (pathname (req_url (ctx_request ctx))) = Some ms1 \<and> ms1 \<noteq> [] \<and>
    re2 (pathname (req_url (ctx_request ctx))) = Some ms2 \<and> ms2 \<noteq> []"
  then show "allowedMethods (snd (post pc p h2 opts2 (snd (get pc p h1 opts1 Router_new)))) ctx =
      (Inr (Response \<lparr>status = 204, statusText = [], res_headers = [''allow'' \<mapsto> ''OPTIONS, GET, HEAD, POST''], body = None\<rparr>), ctx)"
    by (simp add: allowedMethods_def Let_def post_def get_def push_def Router_new_def allow_set_def Response_new_def)
qed

theorem allowed_methods_header_witness:
  "sample_compiler (if ''/a'' = ''*'' then ''(.*)'' else ''/a'') no_options = Inr (literal_regexp ''/a'', []) \<and>
   literal_regexp ''/a'' (pathname (req_url (ctx_request (context_of (request_to OPTIONS ''/a''))))) = Some [Some ''/a''] \<and>
   [Some ''/a''] \<noteq> [] \<and>
   allowedMethods (snd (post sample_compiler ''/a'' (respond hello) no_options
       (snd (get sample_compiler ''/a'' (respond hello) no_options Router_new)))) (context_of (request_to OPTIONS ''/a'')) =
      (Inr (Response \<lparr>status = 204, statusText = [], res_headers = [''allow'' \<mapsto> ''OPTIONS, GET, HEAD, POST''], body = None\<rparr>), context_of (request_to OPTIONS ''/a''))"
proof -
  have a: "sample_compiler (if ''/a'' = ''*'' then ''(.*)'' else ''/a'') no_options = Inr (literal_regexp ''/a'', [])"
    by (simp add: sample_compiler_def)
  have b: "literal_regexp ''/a'' (pathname (req_url (ctx_request (context_of (request_to OPTIONS ''/a''))))) = Some [Some ''/a'']"
    by (simp add: literal_regexp_def context_of_def request_to_def)
  have c: "[Some ''/a''] \<noteq> []" by simp
  from allowed_methods_header [where pc = sample_compiler and p = "''/a''" and ?opts1.0 = no_options
      and ?opts2.0 = no_options and ?re1.0 = "literal_regexp ''/a''" and ?re2.0 = "literal_regexp ''/a''"
      and ?ks1.0 = "[]" and ?ks2.0 = "[]" and ctx = "context_of (request_to OPTIONS ''/a'')"
      and ?ms1.0 = "[Some ''/a'']" and ?ms2.0 = "[Some ''/a'']" and ?h1.0 = "respond hello" and ?h2.0 = "respond hello"]
    a b c show ?thesis by blast
qed

section \<open>The wildcard path\<close>

text \<open>
  C6. A route registered with the path \<^verbatim>\<open>*\<close> is stored with the path \<^verbatim>\<open>(.*)\<close>, and for a
  request \<^verbatim>\<open>GET /foo\<close> the generator yields two candidates for it: first the shortcut's,
  whose parameter \<^verbatim>\<open>0\<close> is the template \<^verbatim>\<open>(.*)\<close>, then the expression's, whose parameter
  \<^verbatim>\<open>0\<close> is the request path. The dispatcher consumes the first: a handler that answers
  with its parameter \<^verbatim>\<open>0\<close> answers \<^verbatim>\<open>(.*)\<close> and not \<^verbatim>\<open>/foo\<close>.
\<close>

theorem wildcard_route_first_binds_template:
  "map (\<lambda>r. (route_method r, path r)) (routes wildcard_router) = [(ALL', ''(.*)'')] \<and>
   map (\<lambda>mt. params mt ''0'') (yielded (matches wildcard_router GET ''/foo'')) = [Some ''(.*)'', Some ''/foo''] \<and>
   handle wildcard_router (request_to GET ''/foo'') () () =
     Inr \<lparr>status = 200, statusText = [],
          res_headers = [''content-type'' \<mapsto> ''text/plain;charset=UTF-8''], body = Some ''(.*)''\<rparr> \<and>
   \<lparr>status = 200, statusText = [],
     res_headers = [''content-type'' \<mapsto> ''text/plain;charset=UTF-8''], body = Some ''(.*)''\<rparr> \<noteq>
   \<lparr>status = 200, statusText = [],
     res_headers = [''content-type'' \<mapsto> ''text/plain;charset=UTF-8''], body = Some ''/foo''\<rparr>"
  by (simp add: fixture_defs)

text \<open>
  C7, as stated, fails: the second candidate is there only when the expression accepts the
  path. The compiled catch-all rejects a path with a line feed, and for such a path the
  generator yields the route once, from the shortcut alone.
\<close>

theorem catch_all_rejects_line_feed_counterexample:
  "map path (routes wildcard_router) = [''(.*)''] \<and>
   map route_method (routes wildcard_router) = [ALL'] \<and>
   length (yielded (matches wildcard_router GET (''/a'' @ [CHR 0x0A] @ ''b''))) = 1 \<and>
   params (hd (yielded (matches wildcard_router GET (''/a'' @ [CHR 0x0A] @ ''b'')))) ''0'' = Some ''(.*)'' \<and>
   matches_opt (hd (yielded (matches wildcard_router GET (''/a'' @ [CHR 0x0A] @ ''b'')))) = None"
  by (simp add: fixture_defs)

text \<open>
  C7, amended. For a route whose path is \<^verbatim>\<open>(.*)\<close> and whose method fits, the generator first
  yields the shortcut's candidate, the route with the one parameter \<^verbatim>\<open>0\<close> bound to the
  template and no capture array. When the expression accepts the path, the candidate of
  the full evaluation follows at once, the route with the parameters of the captures and
  the capture array, and the candidates of the routes before and after stand before and
  after the two; when the expression captures the whole path under the key \<^verbatim>\<open>0\<close>, as the
  compiled catch-all does, the two candidates bind \<^verbatim>\<open>0\<close> to the template and to the
  path. When the expression rejects the path only the shortcut's candidate is yielded,
  and when the keys do not cover the captures the generator throws after it.
\<close>

theorem catch_all_route_yields_twice:
  "path r = ''(.*)'' \<and> (route_method r = Method m \<or> route_method r = ALL') \<longrightarrow>
     (regexp r pn = Some ms \<and> ms \<noteq> [] \<and> keysToParams ms (keys r) = Inr ps \<longrightarrow>
        matches \<lparr>routes = r # rest\<rparr> m pn =
          Yield \<lparr>route_method = route_method r, path = path r, regexp = regexp r, options = options r,
                 keys = keys r, handler = handler r, params = [''0'' \<mapsto> ''(.*)''], matches_opt = None\<rparr>
           (Yield \<lparr>route_method = route_method r, path = path r, regexp = regexp r, options = options r,
                   keys = keys r, handler = handler r, params = ps, matches_opt = Some ms\<rparr>
             (matches \<lparr>routes = rest\<rparr> m pn)) \<and>
        (thrown (matches \<lparr>routes = before\<rparr> m pn) = None \<longrightarrow>
           yielded (matches \<lparr>routes = before @ r # rest\<rparr> m pn) =
             yielded (matches \<lparr>routes = before\<rparr> m pn) @
             [\<lparr>route_method = route_method r, path = path r, regexp = regexp r, options = options r,
                keys = keys r, handler = handler r, params = [''0'' \<mapsto> ''(.*)''], matches_opt = None\<rparr>,
              \<lparr>route_method = route_method r, path = path r, regexp = regexp r, options = options r,
                keys = keys r, handler = handler r, params = ps, matches_opt = Some ms\<rparr>] @
             yielded (matches \<lparr>routes = rest\<rparr> m pn))) \<and>
     (regexp r pn = Some [Some pn, Some pn] \<and> map name (keys r) = [''0''] \<longrightarrow>
        map params (yielded (matches \<lparr>routes = [r]\<rparr> m pn)) = [[''0'' \<mapsto> ''(.*)''], [''0'' \<mapsto> pn]] \<and>
        map matches_opt (yielded (matches \<lparr>routes = [r]\<rparr> m pn)) = [None, Some [Some pn, Some pn]] \<and>
        map handler (yielded (matches \<lparr>routes = [r]\<rparr> m pn)) = [handler r, handler r]) \<and>
     (regexp r pn = None \<or> regexp r pn = Some [] \<longrightarrow>
        matches \<lparr>routes = r # rest\<rparr> m pn =
          Yield \<lparr>route_method = route_method r, path = path r, regexp = regexp r, options = options r,
                 keys = keys r, handler = handler r, params = [''0'' \<mapsto> ''(.*)''], matches_opt = None\<rparr>
            (matches \<lparr>routes = rest\<rparr> m pn)) \<and>
     (regexp r pn = Some ms \<and> ms \<noteq> [] \<and> keysToParams ms (keys r) = Inl e \<longrightarrow>
        matches \<lparr>routes = r # rest\<rparr> m pn =
          Yield \<lparr>route_method = route_method r, path = path r, regexp = regexp r, options = options r,
                 keys = keys r, handler = handler r, params = [''0'' \<mapsto> ''(.*)''], matches_opt = None\<rparr>
            (Throw e))"
proof (intro impI)
  let ?short = "\<lparr>route_method = route_method r, path = path r, regexp = regexp r, options = options r,
                 keys = keys r, handler = handler r, params = [''0'' \<mapsto> ''(.*)''], matches_opt = None\<rparr>"
  let ?full = "\<lambda>ms ps. \<lparr>route_method = route_method r, path = path r, regexp = regexp r, options = options r,
                   keys = keys r, handler = handler r, params = ps, matches_opt = Some ms\<rparr>"
  assume a: "path r = ''(.*)'' \<and> (route_method r = Method m \<or> route_method r = ALL')"
  have one: "matches_loop (r # rest) m pn = Yield ?short (Yield (?full ms ps) (matches_loop rest m pn))"
    if "regexp r pn = Some ms \<and> ms \<noteq> [] \<and> keysToParams ms (keys r) = Inr ps" for rest ms ps
    using a that by (auto simp: spread_def)
  have two: "yielded (matches_loop (before @ r # rest) m pn) =
          yielded (matches_loop before m pn) @ [?short, ?full ms ps] @ yielded (matches_loop rest m pn)"
    if "regexp r pn = Some ms \<and> ms \<noteq> [] \<and> keysToParams ms (keys r) = Inr ps"
      and "thrown (matches_loop before m pn) = None"
  proof -
    have "yielded (matches_loop (before @ r # rest) m pn) =
        yielded (matches_loop before m pn) @ yielded (matches_loop (r # rest) m pn)"
      using that(2) by (simp only: yielded_matches_loop_append simp_thms if_True)
    then show ?thesis by (simp only: one [OF that(1)] yielded.simps append.simps)
  qed
  have three: "map params (yielded (matches_loop [r] m pn)) = [[''0'' \<mapsto> ''(.*)''], [''0'' \<mapsto> pn]] \<and>
        map matches_opt (yielded (matches_loop [r] m pn)) = [None, Some [Some pn, Some pn]] \<and>
        map handler (yielded (matches_loop [r] m pn)) = [handler r, handler r]"
    if t: "regexp r pn = Some [Some pn, Some pn] \<and> map name (keys r) = [''0'']"
  proof -
    from t obtain k where k: "keys r = [k]" "name k = ''0''" by auto
    then have "keysToParams [Some pn, Some pn] (keys r) = Inr [''0'' \<mapsto> pn]"
      by (simp add: keysToParams_def)
    with t have "regexp r pn = Some [Some pn, Some pn] \<and> [Some pn, Some pn] \<noteq> [] \<and>
        keysToParams [Some pn, Some pn] (keys r) = Inr [''0'' \<mapsto> pn]" by simp
    from one [OF this, of "[]"] show ?thesis by simp
  qed
  have four: "matches_loop (r # rest) m pn = Yield ?short (matches_loop rest m pn)"
    if "regexp r pn = None \<or> regexp r pn = Some []"
    using a that by (auto simp: spread_def)
  have five: "matches_loop (r # rest) m pn = Yield ?short (Throw e)"
    if "regexp r pn = Some ms \<and> ms \<noteq> [] \<and> keysToParams ms (keys r) = Inl e"
    using a that by (auto simp: spread_def)
  show "(regexp r pn = Some ms \<and> ms \<noteq> [] \<and> keysToParams ms (keys r) = Inr ps \<longrightarrow>
        matches \<lparr>routes = r # rest\<rparr> m pn =
          Yield ?short (Yield (?full ms ps) (matches \<lparr>routes = rest\<rparr> m pn)) \<and>
        (thrown (matches \<lparr>routes = before\<rparr> m pn) = None \<longrightarrow>
           yielded (matches \<lparr>routes = before @ r # rest\<rparr> m pn) =
             yielded (matches \<lparr>routes = before\<rparr> m pn) @ [?short, ?full ms ps] @
             yielded (matches \<lparr>routes = rest\<rparr> m pn))) \<and>
     (regexp r pn = Some [Some pn, Some pn] \<and> map name (keys r) = [''0''] \<longrightarrow>
        map params (yielded (matches \<lparr>routes = [r]\<rparr> m pn)) = [[''0'' \<mapsto> ''(.*)''], [''0'' \<mapsto> pn]] \<and>
        map matches_opt (yielded (matches \<lparr>routes = [r]\<rparr> m pn)) = [None, Some [Some pn, Some pn]] \<and>
        map handler (yielded (matches \<lparr>routes = [r]\<rparr> m pn)) = [handler r, handler r]) \<and>
     (regexp r pn = None \<or> regexp r pn = Some [] \<longrightarrow>
        matches \<lparr>routes = r # rest\<rparr> m pn = Yield ?short (matches \<lparr>routes = rest\<rparr> m pn)) \<and>
     (regexp r pn = Some ms \<and> ms \<noteq> [] \<and> keysToParams ms (keys r) = Inl e \<longrightarrow>
        matches \<lparr>routes = r # rest\<rparr> m pn = Yield ?short (Throw e))"
    unfolding matches_def router.select_convs
    using one two three four five by blast
qed

theorem catch_all_route_yields_twice_witness:
  "routes (snd (use sample_compiler pass no_options Router_new)) = [catch_all_route] \<and>
   path catch_all_route = ''(.*)'' \<and>
   (route_method catch_all_route = Method POST \<or> route_method catch_all_route = ALL') \<and>
   regexp catch_all_route ''/x/y'' = Some [Some ''/x/y'', Some ''/x/y''] \<and>
   map name (keys catch_all_route) = [''0''] \<and>
   map params (yielded (matches \<lparr>routes = [catch_all_route]\<rparr> POST ''/x/y'')) =
     [[''0'' \<mapsto> ''(.*)''], [''0'' \<mapsto> ''/x/y'']] \<and>
   map matches_opt (yielded (matches \<lparr>routes = [catch_all_route]\<rparr> POST ''/x/y'')) =
     [None, Some [Some ''/x/y'', Some ''/x/y'']]"
proof -
  have r: "routes (snd (use sample_compiler pass no_options Router_new)) = [catch_all_route]"
    by (simp add: catch_all_route_def use_def push_def sample_compiler_def Router_new_def Let_def)
  have a: "path catch_all_route = ''(.*)'' \<and>
     (route_method catch_all_route = Method POST \<or> route_method catch_all_route = ALL')"
    by (simp add: catch_all_route_def)
  have b: "regexp catch_all_route ''/x/y'' = Some [Some ''/x/y'', Some ''/x/y''] \<and>
     map name (keys catch_all_route) = [''0'']"
    by (simp add: catch_all_route_def catch_all_regexp_def)
  have k: "map params (yielded (matches \<lparr>routes = [catch_all_route]\<rparr> POST ''/x/y'')) =
       [[''0'' \<mapsto> ''(.*)''], [''0'' \<mapsto> ''/x/y'']] \<and>
     map matches_opt (yielded (matches \<lparr>routes = [catch_all_route]\<rparr> POST ''/x/y'')) =
       [None, Some [Some ''/x/y'', Some ''/x/y'']]"
    using catch_all_route_yields_twice [where r = catch_all_route and m = POST and pn = "''/x/y''"
        and ms = "[]" and ps = Map.empty and e = "Error []" and rest = "[]" and before = "[]"] a b
    by blast
  show ?thesis using r a b k by blast
qed

section \<open>Callbacks\<close>

text \<open>
  C8. Let the candidates of a request be \<open>pre\<close>, then \<open>mt\<close>, then \<open>after\<close>, where the handlers
  of \<open>pre\<close> return \<^verbatim>\<open>undefined\<close> or callbacks \<open>cbs\<close>, in this order, and the handler of \<open>mt\<close>
  returns a response \<open>r0\<close>. Then \<open>handle\<close> runs the callbacks \<open>cbs\<close> on \<open>r0\<close> and no error
  and returns the response they leave (through the body stripping for a HEAD request).
  The callbacks run from the first to the last, each on the response and error the ones
  before it left. A callback that throws replaces the error, leaves the response as it
  was, and the remaining callbacks run on that response and the new error; one that
  returns replaces the response and leaves the error.
\<close>

theorem callbacks_run_in_order_and_contain_errors:
  "(yielded (matches this (req_method req) (pathname (req_url req))) = pre @ mt # after \<and>
    deferred pre
      \<lparr>ctx_request = req, ctx_query = searchParams (req_url req), ctx_headers = req_headers req,
       ctx_params = Map.empty, ctx_state = Map.empty, ctx_env = env, ctx_event = event\<rparr> =
      Some (cbs, c1) \<and>
    fst (handler mt (c1\<lparr>ctx_params := params mt\<rparr>)) = Inr (Response r0) \<longrightarrow>
      (req_method req \<noteq> HEAD \<longrightarrow>
         handle this req env event = Inr (fst (run_callbacks cbs r0 None))) \<and>
      (req_method req = HEAD \<longrightarrow>
         handle this req env event =
           Response_new (Some []) (status (fst (run_callbacks cbs r0 None)))
             (statusText (fst (run_callbacks cbs r0 None)))
             (res_headers (fst (run_callbacks cbs r0 None))))) \<and>
   run_callbacks [] r e = (r, e) \<and>
   run_callbacks (xs @ ys) r e = (case run_callbacks xs r e of (r', e') \<Rightarrow> run_callbacks ys r' e') \<and>
   (run_callbacks xs r e = (r1, e1) \<and> cb r1 e1 = Inl err \<longrightarrow>
      run_callbacks (xs @ cb # ys) r e = run_callbacks ys r1 (Some err)) \<and>
   (run_callbacks xs r e = (r1, e1) \<and> cb r1 e1 = Inr r2 \<longrightarrow>
      run_callbacks (xs @ cb # ys) r e = run_callbacks ys r2 e1) \<and>
   (handler mt (ctx\<lparr>ctx_params := params mt\<rparr>) = (Inr (Callback cb0), ctx') \<longrightarrow>
      handle_loop req (Yield mt rest) cbs0 ctx = handle_loop req rest (cbs0 @ [cb0]) ctx')"
proof (intro conjI impI)
  assume a: "yielded (matches this (req_method req) (pathname (req_url req))) = pre @ mt # after \<and>
    deferred pre
      \<lparr>ctx_request = req, ctx_query = searchParams (req_url req), ctx_headers = req_headers req,
       ctx_params = Map.empty, ctx_state = Map.empty, ctx_env = env, ctx_event = event\<rparr> =
      Some (cbs, c1) \<and>
    fst (handler mt (c1\<lparr>ctx_params := params mt\<rparr>)) = Inr (Response r0)"
  then obtain c2 where h: "handler mt (c1\<lparr>ctx_params := params mt\<rparr>) = (Inr (Response r0), c2)"
    by (cases "handler mt (c1\<lparr>ctx_params := params mt\<rparr>)") simp
  have c: "call_handler (handler mt) (c1\<lparr>ctx_params := params mt\<rparr>) = Inr ((None, Response r0), c2)"
    using h by (simp add: call_handler_def)
  have f: "handle this req env event = finalize req cbs r0 None"
    using a c by (blast intro: handle_terminating)
  {
    assume "req_method req \<noteq> HEAD"
    then show "handle this req env event = Inr (fst (run_callbacks cbs r0 None))"
      using f by (simp add: finalize_def)
  }
  {
    assume "req_method req = HEAD"
    then show "handle this req env event =
           Response_new (Some []) (status (fst (run_callbacks cbs r0 None)))
             (statusText (fst (run_callbacks cbs r0 None)))
             (res_headers (fst (run_callbacks cbs r0 None)))"
      using f by (simp add: finalize_def Let_def)
  }
next
  assume "handler mt (ctx\<lparr>ctx_params := params mt\<rparr>) = (Inr (Callback cb0), ctx')"
  then show "handle_loop req (Yield mt rest) cbs0 ctx = handle_loop req rest (cbs0 @ [cb0]) ctx'"
    by (simp add: call_handler_def)
qed (simp_all add: run_callbacks_append)

theorem callbacks_run_in_order_witness:
  "req_method (request_to GET ''/a'') \<noteq> HEAD \<and>
   length (yielded (matches (callbacks_router (respond hello)) GET ''/a'')) = 6 \<and>
   run_callbacks [note_error ''x-first'', add_header (''x-a'', ''1'')] hello None =
     (hello\<lparr>res_headers := (res_headers hello)(''x-first'' \<mapsto> ''none'', ''x-a'' \<mapsto> ''1'')\<rparr>, None) \<and>
   failing_callback (Error ''late'')
     (hello\<lparr>res_headers := (res_headers hello)(''x-first'' \<mapsto> ''none'', ''x-a'' \<mapsto> ''1'')\<rparr>) None =
     Inl (Error ''late'') \<and>
   run_callbacks
     ([note_error ''x-first'', add_header (''x-a'', ''1'')] @ failing_callback (Error ''late'') #
      [note_error ''x-last'']) hello None =
     run_callbacks [note_error ''x-last'']
       (hello\<lparr>res_headers := (res_headers hello)(''x-first'' \<mapsto> ''none'', ''x-a'' \<mapsto> ''1'')\<rparr>)
       (Some (Error ''late'')) \<and>
   handle (callbacks_router (respond hello)) (request_to GET ''/a'') () () =
     Inr \<lparr>status = 200, statusText = [],
          res_headers = [''content-type'' \<mapsto> ''text/plain;charset=UTF-8'', ''x-first'' \<mapsto> ''none'',
                         ''x-a'' \<mapsto> ''1'', ''x-last'' \<mapsto> ''late''],
          body = Some ''hello''\<rparr> \<and>
   handle (callbacks_router (respond hello)) (request_to HEAD ''/a'') () () =
     Inr \<lparr>status = 200, statusText = [],
          res_headers = [''content-type'' \<mapsto> ''text/plain;charset=UTF-8'', ''x-first'' \<mapsto> ''none'',
                         ''x-a'' \<mapsto> ''1'', ''x-last'' \<mapsto> ''late''],
          body = Some []\<rparr>"
proof -
  let ?req = "request_to GET ''/a''"
  let ?R = "callbacks_router (respond hello)"
  let ?ys = "yielded (matches ?R (req_method ?req) (pathname (req_url ?req)))"
  let ?xs = "[note_error ''x-first'', add_header (''x-a'', ''1'')]"
  let ?cbs = "?xs @ failing_callback (Error ''late'') # [note_error ''x-last'']"
  let ?r1 = "hello\<lparr>res_headers := (res_headers hello)(''x-first'' \<mapsto> ''none'', ''x-a'' \<mapsto> ''1'')\<rparr>"
  note inst = callbacks_run_in_order_and_contain_errors
      [where this = ?R and req = ?req and pre = "take 5 ?ys" and mt = "?ys ! 5"
        and after = "[]" and env = "()" and event = "()" and cbs = ?cbs and ?c1.0 = "context_of ?req"
        and ?r0.0 = hello and xs = ?xs and r = hello and e = None and ?r1.0 = ?r1 and ?e1.0 = None
        and cb = "failing_callback (Error ''late'')" and err = "Error ''late''" and ys = "[note_error ''x-last'']"]
  have m: "req_method ?req \<noteq> HEAD" by (simp add: request_to_def)
  have l: "length ?ys = Suc 5" by (simp add: fixture_defs)
  have a: "?ys = take 5 ?ys @ ?ys ! 5 # []" using l by (rule split_last)
  have d: "deferred (take 5 ?ys)
      \<lparr>ctx_request = ?req, ctx_query = searchParams (req_url ?req), ctx_headers = req_headers ?req,
       ctx_params = Map.empty, ctx_state = Map.empty, ctx_env = (), ctx_event = ()\<rparr> =
      Some (?cbs, context_of ?req)"
    by (simp add: fixture_defs)
  have t: "fst (handler (?ys ! 5) ((context_of ?req)\<lparr>ctx_params := params (?ys ! 5)\<rparr>)) = Inr (Response hello)"
    by (simp add: fixture_defs)
  have x: "run_callbacks ?xs hello None = (?r1, None)"
    by (simp add: note_error_def add_header_def)
  have y: "failing_callback (Error ''late'') ?r1 None = Inl (Error ''late'')"
    by (simp add: failing_callback_def)
  have z: "run_callbacks ?cbs hello None = run_callbacks [note_error ''x-last''] ?r1 (Some (Error ''late''))"
    using inst x y by blast
  have h: "handle ?R ?req () () = Inr (fst (run_callbacks ?cbs hello None))"
    using inst a d t m by blast
  have v: "fst (run_callbacks [note_error ''x-last''] ?r1 (Some (Error ''late''))) =
     \<lparr>status = 200, statusText = [],
          res_headers = [''content-type'' \<mapsto> ''text/plain;charset=UTF-8'', ''x-first'' \<mapsto> ''none'',
                         ''x-a'' \<mapsto> ''1'', ''x-last'' \<mapsto> ''late''],
          body = Some ''hello''\<rparr>"
    by (simp add: note_error_def hello_def text_response_def)
  have n: "length (yielded (matches ?R GET ''/a'')) = 6" by (simp add: fixture_defs)
  have hd: "handle ?R (request_to HEAD ''/a'') () () =
     Inr \<lparr>status = 200, statusText = [],
          res_headers = [''content-type'' \<mapsto> ''text/plain;charset=UTF-8'', ''x-first'' \<mapsto> ''none'',
                         ''x-a'' \<mapsto> ''1'', ''x-last'' \<mapsto> ''late''],
          body = Some []\<rparr>"
    by (simp add: fixture_defs)
  have direct: "handle ?R ?req () () =
     Inr \<lparr>status = 200, statusText = [],
          res_headers = [''content-type'' \<mapsto> ''text/plain;charset=UTF-8'', ''x-first'' \<mapsto> ''none'',
                         ''x-a'' \<mapsto> ''1'', ''x-last'' \<mapsto> ''late''],
          body = Some ''hello''\<rparr>"
    by (simp add: fixture_defs)
  have derived: "handle ?R ?req () () =
     Inr \<lparr>status = 200, statusText = [],
          res_headers = [''content-type'' \<mapsto> ''text/plain;charset=UTF-8'', ''x-first'' \<mapsto> ''none'',
                         ''x-a'' \<mapsto> ''1'', ''x-last'' \<mapsto> ''late''],
          body = Some ''hello''\<rparr>"
    by (simp only: h z v)
  show ?thesis
    by (intro conjI) (rule m, rule n, rule x, rule y, rule z,
        rule conjunct1 [OF conjI [OF derived direct]], rule hd)
qed

section \<open>Registration and the pattern compiler\<close>

text \<open>
  C9, as stated, fails for \<open>get\<close>: when the template compiles it appends two routes.
\<close>

theorem get_appends_two_routes_counterexample:
  "fst (get sample_compiler ''/a'' pass no_options (Router_new :: (unit, unit, unit) router)) = None \<and>
   length (routes (snd (get sample_compiler ''/a'' pass no_options (Router_new :: (unit, unit, unit) router)))) =
     length (routes (Router_new :: (unit, unit, unit) router)) + 2"
  by (simp add: get_def push_def sample_compiler_def Router_new_def Let_def)

text \<open>
  C9, amended. In every registration function, when the compiler throws on the template
  (after \<^verbatim>\<open>*\<close> has become \<^verbatim>\<open>(.*)\<close>) the call throws that error and leaves the router as it
  was; when the template compiles the call returns the router with exactly one route
  appended, and \<open>get\<close> returns it with exactly two, the GET route and then the HEAD route.
\<close>

theorem registration_outcome:
  fixes this :: "('v, 'env, 'ev) router" and h :: "('v, 'env, 'ev) handler"
    and p :: string and re :: regexp and opts :: route_options and ks :: "key list"
  defines "p' \<equiv> if p = ''*'' then ''(.*)'' else p"
  defines "new \<equiv> \<lambda>m. \<lparr>route_method = m, path = p', regexp = re, options = opts, keys = ks, handler = h\<rparr>"
  shows
  "(pc p' opts = Inl e \<longrightarrow>
      push pc m p h opts this = (Some e, this) \<and>
      all pc p h opts this = (Some e, this) \<and>
      get pc p h opts this = (Some e, this) \<and>
      post pc p h opts this = (Some e, this) \<and>
      put pc p h opts this = (Some e, this) \<and>
      patch pc p h opts this = (Some e, this) \<and>
      delete pc p h opts this = (Some e, this) \<and>
      head pc p h opts this = (Some e, this) \<and>
      options' pc p h opts this = (Some e, this)) \<and>
   (pc p' opts = Inr (re, ks) \<longrightarrow>
      push pc m p h opts this = (None, this\<lparr>routes := routes this @ [new m]\<rparr>) \<and>
      all pc p h opts this = (None, this\<lparr>routes := routes this @ [new ALL']\<rparr>) \<and>
      get pc p h opts this = (None, this\<lparr>routes := routes this @ [new (Method GET), new (Method HEAD)]\<rparr>) \<and>
      post pc p h opts this = (None, this\<lparr>routes := routes this @ [new (Method POST)]\<rparr>) \<and>
      put pc p h opts this = (None, this\<lparr>routes := routes this @ [new (Method PUT)]\<rparr>) \<and>
      patch pc p h opts this = (None, this\<lparr>routes := routes this @ [new (Method PATCH)]\<rparr>) \<and>
      delete pc p h opts this = (None, this\<lparr>routes := routes this @ [new (Method DELETE)]\<rparr>) \<and>
      head pc p h opts this = (None, this\<lparr>routes := routes this @ [new (Method HEAD)]\<rparr>) \<and>
      options' pc p h opts this = (None, this\<lparr>routes := routes this @ [new (Method OPTIONS)]\<rparr>)) \<and>
   (pc ''(.*)'' opts = Inl e \<longrightarrow> use pc h opts this = (Some e, this)) \<and>
   (pc ''(.*)'' opts = Inr (re, ks) \<longrightarrow>
      use pc h opts this =
        (None, this\<lparr>routes := routes this @
           [\<lparr>route_method = ALL', path = ''(.*)'', regexp = re, options = opts, keys = ks, handler = h\<rparr>]\<rparr>))"
  unfolding p'_def new_def
  by (simp add: push_def all_def get_def post_def put_def patch_def delete_def head_def options'_def
      use_def Let_def)

theorem registration_outcome_witness:
  "sample_compiler (if ''/:'' = ''*'' then ''(.*)'' else ''/:'') no_options = Inl (TypeError ''Unexpected character'') \<and>
   get sample_compiler ''/:'' pass no_options sample_router = (Some (TypeError ''Unexpected character''), sample_router) \<and>
   post sample_compiler ''/:'' pass no_options sample_router = (Some (TypeError ''Unexpected character''), sample_router) \<and>
   sample_compiler (if ''/b'' = ''*'' then ''(.*)'' else ''/b'') no_options = Inr (literal_regexp ''/b'', []) \<and>
   fst (post sample_compiler ''/b'' pass no_options sample_router) = None \<and>
   length (routes (snd (post sample_compiler ''/b'' pass no_options sample_router))) = length (routes sample_router) + 1 \<and>
   length (routes (snd (get sample_compiler ''/b'' pass no_options sample_router))) = length (routes sample_router) + 2"
proof -
  have a: "sample_compiler (if ''/:'' = ''*'' then ''(.*)'' else ''/:'') no_options = Inl (TypeError ''Unexpected character'')"
    by (simp add: sample_compiler_def)
  have b: "sample_compiler (if ''/b'' = ''*'' then ''(.*)'' else ''/b'') no_options = Inr (literal_regexp ''/b'', [])"
    by (simp add: sample_compiler_def)
  note f = registration_outcome [where pc = sample_compiler and p = "''/:''" and opts = no_options
      and e = "TypeError ''Unexpected character''" and h = pass and this = sample_router]
  note s = registration_outcome [where pc = sample_compiler and p = "''/b''" and opts = no_options
      and re = "literal_regexp ''/b''" and ks = "[]" and h = pass and this = sample_router]
  have f1: "get sample_compiler ''/:'' pass no_options sample_router = (Some (TypeError ''Unexpected character''), sample_router)"
    and f2: "post sample_compiler ''/:'' pass no_options sample_router = (Some (TypeError ''Unexpected character''), sample_router)"
    using f a by blast+
  have s1: "post sample_compiler ''/b'' pass no_options sample_router =
      (None, sample_router\<lparr>routes := routes sample_router @
         [\<lparr>route_method = Method POST, path = (if ''/b'' = ''*'' then ''(.*)'' else ''/b''),
           regexp = literal_regexp ''/b'', options = no_options, keys = [], handler = pass\<rparr>]\<rparr>)"
    and s2: "get sample_compiler ''/b'' pass no_options sample_router =
      (None, sample_router\<lparr>routes := routes sample_router @
         [\<lparr>route_method = Method GET, path = (if ''/b'' = ''*'' then ''(.*)'' else ''/b''),
           regexp = literal_regexp ''/b'', options = no_options, keys = [], handler = pass\<rparr>,
          \<lparr>route_method = Method HEAD, path = (if ''/b'' = ''*'' then ''(.*)'' else ''/b''),
           regexp = literal_regexp ''/b'', options = no_options, keys = [], handler = pass\<rparr>]\<rparr>)"
    using s b by blast+
  show ?thesis
    by (intro conjI) (rule a, rule f1, rule f2, rule b, simp_all only: s1 s2, simp_all)
qed

section \<open>HEAD requests that no route answers\<close>

text \<open>
  C10. For a HEAD request whose candidates all return a callback or \<^verbatim>\<open>undefined\<close>, and whose
  generator does not throw, \<open>handle\<close> returns the response with status 404 and the body
  \<^verbatim>\<open>Not Found\<close>: the body is not emptied, since the stripping belongs to the branch of a
  handler that returned a response.
\<close>

theorem head_without_terminating_route_keeps_404_body:
  assumes "req_method req = HEAD"
    and "thrown (matches this (req_method req) (pathname (req_url req))) = None"
    and "\<forall>mt \<in> set (yielded (matches this (req_method req) (pathname (req_url req)))). \<forall>c.
           fst (handler mt c) = Inr Undefined \<or> (\<exists>cb. fst (handler mt c) = Inr (Callback cb))"
  shows "handle this req env event =
           Inr \<lparr>status = 404, statusText = [],
                res_headers = [''content-type'' \<mapsto> ''text/plain;charset=UTF-8''],
                body = Some ''Not Found''\<rparr> \<and>
         (\<exists>resp. handle this req env event = Inr resp \<and> status resp = 404 \<and>
            body resp = Some ''Not Found'' \<and> body resp \<noteq> Some [])"
proof -
  have "handle this req env event = Response_new (Some ''Not Found'') 404 [] Map.empty"
    using handle_loop_nonterminal [OF assms(2) assms(3)] by (simp add: handle_def)
  then show ?thesis by (simp only: Response_not_found) simp
qed

theorem head_without_terminating_route_witness:
  "req_method (request_to HEAD ''/x'') = HEAD \<and>
   thrown (matches middleware_router HEAD ''/x'') = None \<and>
   length (yielded (matches middleware_router HEAD ''/x'')) = 4 \<and>
   handle middleware_router (request_to HEAD ''/x'') () () =
     Inr \<lparr>status = 404, statusText = [],
          res_headers = [''content-type'' \<mapsto> ''text/plain;charset=UTF-8''],
          body = Some ''Not Found''\<rparr>"
proof -
  let ?req = "request_to HEAD ''/x''"
  have a: "req_method ?req = HEAD" by (simp add: request_to_def)
  have b: "thrown (matches middleware_router (req_method ?req) (pathname (req_url ?req))) = None"
    by (simp add: fixture_defs)
  have c: "\<forall>mt \<in> set (yielded (matches middleware_router (req_method ?req) (pathname (req_url ?req)))). \<forall>c.
           fst (handler mt c) = Inr Undefined \<or> (\<exists>cb. fst (handler mt c) = Inr (Callback cb))"
    by (simp add: fixture_defs)
  have d: "length (yielded (matches middleware_router HEAD ''/x'')) = 4"
    by (simp add: fixture_defs)
  have e: "req_method ?req = HEAD" "pathname (req_url ?req) = ''/x''" by (simp_all add: request_to_def)
  from head_without_terminating_route_keeps_404_body [OF a b c, of "()" "()"] a b d e show ?thesis
    by simp
qed

end
